theory Spec2Isabelle
  imports Main "HOL-Library.Sublist"
begin

section \<open>Strings\<close>

text \<open>
  A JavaScript string is modelled as a \<open>string\<close> (a list of 8-bit characters): the model
  covers strings whose code units are below 256 (ASCII and Latin-1), where one \<open>char\<close> is one
  code unit of the source and one character of the storage engine.
\<close>

definition charCode :: "char \<Rightarrow> nat" where
  "charCode c = of_char c"

text \<open>
  The characters JavaScript's \<open>\s\<close> and \<open>String.prototype.trim\<close> treat as white space
  (tab, line feed, vertical tab, form feed, carriage return, space, no-break space).
\<close>

definition isWhiteSpace :: "char \<Rightarrow> bool" where
  "isWhiteSpace c = (charCode c \<in> {9, 10, 11, 12, 13, 32, 160})"

text \<open>\<open>\d\<close> of a JavaScript regular expression: the ten ASCII digits.\<close>

definition isDigit :: "char \<Rightarrow> bool" where
  "isDigit c = (48 \<le> charCode c \<and> charCode c \<le> 57)"

text \<open>\<open>String.prototype.trim\<close>: white space removed at both ends.\<close>

definition trim :: "string \<Rightarrow> string" where
  "trim s = rev (dropWhile isWhiteSpace (rev (dropWhile isWhiteSpace s)))"

text \<open>
  \<open>String.prototype.toLowerCase\<close> on one code unit below 256: \<open>A\<close>..\<open>Z\<close> and the
  Latin-1 capitals (192..222 except the multiplication sign 215) move up by 32.
\<close>

definition lowerChar :: "char \<Rightarrow> char" where
  "lowerChar c =
     (let n = charCode c in
      if (65 \<le> n \<and> n \<le> 90) \<or> (192 \<le> n \<and> n \<le> 222 \<and> n \<noteq> 215)
      then char_of (n + 32) else c)"

definition toLowerCase :: "string \<Rightarrow> string" where
  "toLowerCase s = map lowerChar s"

section \<open>The storage engine\<close>

text \<open>
  The table \<open>employees\<close> of \<open>initializeTables\<close>: an integer primary key with
  \<open>AUTOINCREMENT\<close>, four text columns, \<open>email\<close> with a \<open>UNIQUE\<close> constraint, and two
  timestamps that default to \<open>CURRENT_TIMESTAMP\<close>. A timestamp is a number of seconds; the
  clock is an argument of the operations that read it.
\<close>

record Employee =
  emp_id :: int
  name :: string
  email :: string
  position :: string
  phone :: string
  created_at :: nat
  updated_at :: nat

text \<open>
  The state of the database: the rows in rowid order, and the largest rowid the table has
  ever handed out (the engine keeps it in \<open>sqlite_sequence\<close> for an \<open>AUTOINCREMENT\<close> key).
\<close>

record Database =
  rows :: "Employee list"
  seq :: int

text \<open>The errors the engine reports to the callback of \<open>run\<close>, \<open>all\<close> and \<open>get\<close>.\<close>

datatype db_error =
    UniqueConstraintFailed  \<comment> \<open>\<open>SQLITE_CONSTRAINT: UNIQUE constraint failed: employees.email\<close>\<close>
  | SyntaxError  \<comment> \<open>\<open>SQLITE_ERROR: near "OFFSET": syntax error\<close>\<close>
  | DatatypeMismatch  \<comment> \<open>\<open>SQLITE_MISMATCH: datatype mismatch\<close>\<close>

text \<open>
  The engine's \<open>LIKE\<close> without an \<open>ESCAPE\<close> clause. Its matcher \<open>patternCompare\<close> reads
  pattern and text as C strings: \<open>%\<close> in the pattern matches any run of characters,
  \<open>_\<close> matches exactly one character, and every other character matches itself where
  the ASCII letters are compared without regard to case.
\<close>

definition likeFold :: "char \<Rightarrow> char" where
  "likeFold c = (let n = charCode c in if 65 \<le> n \<and> n \<le> 90 then char_of (n + 32) else c)"

fun patternCompare :: "string \<Rightarrow> string \<Rightarrow> bool" where
  "patternCompare [] t = (t = [])"
| "patternCompare (p # ps) [] = (p = CHR ''%'' \<and> patternCompare ps [])"
| "patternCompare (p # ps) (c # cs) =
     (if p = CHR ''%'' then patternCompare ps (c # cs) \<or> patternCompare (p # ps) cs
      else if p = CHR ''_'' then patternCompare ps cs
      else likeFold p = likeFold c \<and> patternCompare ps cs)"

text \<open>
  A C string ends at its first NUL character: the matcher sees neither the NUL of a bound
  pattern or of a stored text nor what follows it.
\<close>

definition cString :: "string \<Rightarrow> string" where
  "cString s = takeWhile (\<lambda>c. c \<noteq> CHR 0x00) s"

text \<open>
  \<open>text LIKE pattern\<close>. The engine refuses a pattern of more than 50000 bytes
  (\<open>LIKE or GLOB pattern too complex\<close>); the model covers the patterns below that length.
\<close>

definition like :: "string \<Rightarrow> string \<Rightarrow> bool" where
  "like pattern t = patternCompare (cString pattern) (cString t)"

text \<open>
  The conditions \<open>getEmployees\<close> and \<open>getEmployeeCount\<close> push on \<open>conditions\<close>, each
  with the parameters bound to its placeholders.
\<close>

datatype condition =
    NameEmailPhoneLike string  \<comment> \<open>\<open>(name LIKE ? OR email LIKE ? OR phone LIKE ?)\<close>\<close>
  | PositionEquals string  \<comment> \<open>\<open>position = ?\<close>\<close>

fun holds :: "condition \<Rightarrow> Employee \<Rightarrow> bool" where
  "holds (NameEmailPhoneLike searchTerm) r =
     (like searchTerm (name r) \<or> like searchTerm (email r) \<or> like searchTerm (phone r))"
| "holds (PositionEquals p) r = (position r = p)"

text \<open>\<open>WHERE c1 AND c2 ...\<close>; no \<open>WHERE\<close> clause when there is no condition.\<close>

definition whereRows :: "condition list \<Rightarrow> Employee list \<Rightarrow> Employee list" where
  "whereRows conditions rs = filter (\<lambda>r. list_all (\<lambda>c. holds c r) conditions) rs"

text \<open>
  \<open>ORDER BY created_at DESC\<close>. The engine leaves the order of rows with equal keys open;
  the model keeps them in scan order.
\<close>

definition orderByCreatedAtDesc :: "Employee list \<Rightarrow> Employee list" where
  "orderByCreatedAtDesc rs = sort_key (\<lambda>r. - int (created_at r)) rs"

text \<open>
  The tail of the \<open>SELECT\<close> statement. The engine's grammar has \<open>LIMIT n\<close> and
  \<open>LIMIT n OFFSET k\<close> only: a statement that ends in \<open>OFFSET k\<close> with no \<open>LIMIT\<close> is
  rejected when it is prepared. The numbers are bound as the text \<open>toString\<close> gives, which
  the engine converts back to a 64-bit integer; a number that does not fit (its text, also
  when it is in exponent notation, then reads as a real) is rejected with a datatype
  mismatch when the statement runs. A negative limit is no limit, a negative offset is
  offset 0.
\<close>

definition isInt64 :: "int \<Rightarrow> bool" where
  "isInt64 n = (- (2 ^ 63) \<le> n \<and> n < 2 ^ 63)"

fun limitOffset :: "int option \<Rightarrow> int option \<Rightarrow> 'a list \<Rightarrow> db_error + 'a list" where
  "limitOffset None None xs = Inr xs"
| "limitOffset (Some l) None xs =
     (if \<not> isInt64 l then Inl DatatypeMismatch
      else Inr (if l < 0 then xs else take (nat l) xs))"
| "limitOffset (Some l) (Some k) xs =
     (if \<not> isInt64 l \<or> \<not> isInt64 k then Inl DatatypeMismatch
      else Inr (if l < 0 then drop (nat k) xs else take (nat l) (drop (nat k) xs)))"
| "limitOffset None (Some k) xs = Inl SyntaxError"

section \<open>The repository: \<open>Database\<close>\<close>

text \<open>
  The search parameters: each one a value or \<open>undefined\<close>. The fields of the request
  types carry a prefix (\<open>sp_\<close>, \<open>new_\<close>, \<open>upd_\<close>, \<open>body_\<close>, \<open>q_\<close>, \<open>pg_\<close>), since the
  fields of all records share one name space; limit and offset are integers.
\<close>

record SearchEmployeeRequest =
  sp_query :: "string option"
  sp_position :: "string option"
  sp_limit :: "int option"
  sp_offset :: "int option"

text \<open>
  \<open>if (searchParams?.query)\<close> and its siblings test truthiness: a string passes when it is
  present and not empty, a number when it is present and not 0.
\<close>

fun truthyString :: "string option \<Rightarrow> string option" where
  "truthyString None = None"
| "truthyString (Some s) = (if s = [] then None else Some s)"

fun truthyNumber :: "int option \<Rightarrow> int option" where
  "truthyNumber None = None"
| "truthyNumber (Some n) = (if n = 0 then None else Some n)"

definition conditionsOf :: "SearchEmployeeRequest \<Rightarrow> condition list" where
  "conditionsOf searchParams =
     (case truthyString (sp_query searchParams) of
        None \<Rightarrow> []
      | Some q \<Rightarrow> [NameEmailPhoneLike (CHR ''%'' # q @ [CHR ''%''])]) @
     (case truthyString (sp_position searchParams) of
        None \<Rightarrow> []
      | Some p \<Rightarrow> [PositionEquals p])"

definition getEmployees :: "Database \<Rightarrow> SearchEmployeeRequest \<Rightarrow> db_error + Employee list" where
  "getEmployees db searchParams =
     limitOffset (truthyNumber (sp_limit searchParams)) (truthyNumber (sp_offset searchParams))
       (orderByCreatedAtDesc (whereRows (conditionsOf searchParams) (rows db)))"

definition getEmployeeCount :: "Database \<Rightarrow> SearchEmployeeRequest \<Rightarrow> db_error + nat" where
  "getEmployeeCount db searchParams =
     Inr (length (whereRows (conditionsOf searchParams) (rows db)))"

text \<open>
  \<open>getEmployeeById\<close>: \<open>SELECT * FROM employees WHERE id = ?\<close>; \<open>null\<close> when no row has
  the id.
\<close>

definition getEmployeeById :: "Database \<Rightarrow> int \<Rightarrow> Employee option" where
  "getEmployeeById db i = find (\<lambda>r. emp_id r = i) (rows db)"

text \<open>
  The rowid an \<open>AUTOINCREMENT\<close> key gives a new row: one more than the largest rowid the
  table holds or has ever held.
\<close>

definition maxRowid :: "Employee list \<Rightarrow> int \<Rightarrow> int" where
  "maxRowid rs s = foldr (\<lambda>r m. max (emp_id r) m) rs s"

record CreateEmployeeRequest =
  new_name :: string
  new_email :: string
  new_position :: string
  new_phone :: string

text \<open>
  \<open>createEmployee\<close>: \<open>INSERT INTO employees (name, email, position, phone) VALUES (?, ?, ?, ?)\<close>.
  The promise is rejected with the engine's error, and nothing is stored, when a row already
  holds the email; otherwise it resolves to \<open>lastID\<close>. The result comes with the database
  after the call.
\<close>

definition createEmployee ::
  "nat \<Rightarrow> Database \<Rightarrow> CreateEmployeeRequest \<Rightarrow> (db_error + int) \<times> Database" where
  "createEmployee now db employee =
     (if new_email employee \<in> set (map email (rows db)) then (Inl UniqueConstraintFailed, db)
      else
        let lastID = maxRowid (rows db) (seq db) + 1;
            row = \<lparr>emp_id = lastID, name = new_name employee, email = new_email employee,
                   position = new_position employee, phone = new_phone employee,
                   created_at = now, updated_at = now\<rparr>
        in (Inr lastID, db\<lparr>rows := rows db @ [row], seq := lastID\<rparr>))"

record UpdateEmployeeRequest =
  upd_name :: "string option"
  upd_email :: "string option"
  upd_position :: "string option"
  upd_phone :: "string option"

text \<open>
  \<open>fields\<close> of \<open>updateEmployee\<close>: the keys of \<open>updates\<close> whose value is not \<open>undefined\<close>.
\<close>

definition fieldsOf :: "UpdateEmployeeRequest \<Rightarrow> string list" where
  "fieldsOf updates =
     (case upd_name updates of None \<Rightarrow> [] | Some _ \<Rightarrow> [''name'']) @
     (case upd_email updates of None \<Rightarrow> [] | Some _ \<Rightarrow> [''email'']) @
     (case upd_position updates of None \<Rightarrow> [] | Some _ \<Rightarrow> [''position'']) @
     (case upd_phone updates of None \<Rightarrow> [] | Some _ \<Rightarrow> [''phone''])"

text \<open>
  \<open>SET f1 = ?, ..., updated_at = CURRENT_TIMESTAMP\<close> on one row.
\<close>

definition setClause :: "nat \<Rightarrow> UpdateEmployeeRequest \<Rightarrow> Employee \<Rightarrow> Employee" where
  "setClause now updates r =
     r\<lparr>name := (case upd_name updates of None \<Rightarrow> name r | Some v \<Rightarrow> v),
       email := (case upd_email updates of None \<Rightarrow> email r | Some v \<Rightarrow> v),
       position := (case upd_position updates of None \<Rightarrow> position r | Some v \<Rightarrow> v),
       phone := (case upd_phone updates of None \<Rightarrow> phone r | Some v \<Rightarrow> v),
       updated_at := now\<rparr>"

text \<open>
  Whether the \<open>UPDATE\<close> breaks the \<open>UNIQUE\<close> constraint: a row it changes would get the
  email of a row it does not change.
\<close>

definition emailCollides :: "Database \<Rightarrow> int \<Rightarrow> UpdateEmployeeRequest \<Rightarrow> bool" where
  "emailCollides db i updates =
     (case upd_email updates of
        None \<Rightarrow> False
      | Some e \<Rightarrow> e \<in> set (map email (filter (\<lambda>r. emp_id r \<noteq> i) (rows db))))"

text \<open>
  \<open>updateEmployee\<close>: resolves to \<open>false\<close> without a statement when \<open>fields\<close> is empty;
  otherwise runs \<open>UPDATE employees SET ... WHERE id = ?\<close> and resolves to \<open>changes > 0\<close>,
  or is rejected with the engine's error.
\<close>

definition updateEmployee ::
  "nat \<Rightarrow> Database \<Rightarrow> int \<Rightarrow> UpdateEmployeeRequest \<Rightarrow> (db_error + bool) \<times> Database" where
  "updateEmployee now db i updates =
     (if length (fieldsOf updates) = 0 then (Inr False, db)
      else if filter (\<lambda>r. emp_id r = i) (rows db) = [] then (Inr False, db)
      else if emailCollides db i updates then (Inl UniqueConstraintFailed, db)
      else (Inr True,
            db\<lparr>rows := map (\<lambda>r. if emp_id r = i then setClause now updates r else r) (rows db)\<rparr>))"

text \<open>\<open>deleteEmployee\<close>: \<open>DELETE FROM employees WHERE id = ?\<close>, resolves to \<open>changes > 0\<close>.\<close>

definition deleteEmployee :: "Database \<Rightarrow> int \<Rightarrow> (db_error + bool) \<times> Database" where
  "deleteEmployee db i =
     (Inr (filter (\<lambda>r. emp_id r = i) (rows db) \<noteq> []),
      db\<lparr>rows := filter (\<lambda>r. emp_id r \<noteq> i) (rows db)\<rparr>)"

section \<open>The service: \<open>EmployeeService\<close>\<close>

text \<open>What a service call throws: the engine's error, or an \<open>Error\<close> with a message.\<close>

datatype service_error = DbError db_error | Error string

text \<open>
  \<open>EmployeeService.createEmployee\<close>: trims the four fields, lower-cases the email, inserts,
  and reads the new row back.
\<close>

definition EmployeeService_createEmployee ::
  "nat \<Rightarrow> Database \<Rightarrow> CreateEmployeeRequest \<Rightarrow> (service_error + Employee) \<times> Database" where
  "EmployeeService_createEmployee now db employeeData =
     (case createEmployee now db
             \<lparr>new_name = trim (new_name employeeData),
              new_email = toLowerCase (trim (new_email employeeData)),
              new_position = trim (new_position employeeData),
              new_phone = trim (new_phone employeeData)\<rparr> of
        (Inl err, db') \<Rightarrow> (Inl (DbError err), db')
      | (Inr employeeId, db') \<Rightarrow>
          (case getEmployeeById db' employeeId of
             None \<Rightarrow> (Inl (Error ''Failed to retrieve created employee''), db')
           | Some newEmployee \<Rightarrow> (Inr newEmployee, db')))"

text \<open>
  \<open>EmployeeService.getEmployees\<close>: the page, then the count, both from the same parameters.
\<close>

definition EmployeeService_getEmployees ::
  "Database \<Rightarrow> SearchEmployeeRequest \<Rightarrow> service_error + (Employee list \<times> nat)" where
  "EmployeeService_getEmployees db searchParams =
     (case getEmployees db searchParams of
        Inl err \<Rightarrow> Inl (DbError err)
      | Inr employees \<Rightarrow>
          (case getEmployeeCount db searchParams of
             Inl err \<Rightarrow> Inl (DbError err)
           | Inr totalCount \<Rightarrow> Inr (employees, totalCount)))"

section \<open>The validation middleware\<close>

text \<open>
  \<open>emailRegex = /^[^\s@]+@[^\s@]+\.[^\s@]+$/\<close>: the characters before the first \<open>@\<close>
  are a non-empty run without white space, and what follows the \<open>@\<close> is a run without
  white space or \<open>@\<close> that has a dot strictly inside it.
\<close>

definition emailChar :: "char \<Rightarrow> bool" where
  "emailChar c = (\<not> isWhiteSpace c \<and> c \<noteq> CHR ''@'')"

definition isValidEmail :: "string \<Rightarrow> bool" where
  "isValidEmail s =
     (takeWhile emailChar s \<noteq> [] \<and>
      (case dropWhile emailChar s of
         [] \<Rightarrow> False
       | c # domain \<Rightarrow>
           c = CHR ''@'' \<and> list_all emailChar domain \<and> CHR ''.'' \<in> set (butlast (tl domain))))"

text \<open>\<open>phone.replace(/[\s\-\(\)]/g, "")\<close>: white space, dashes and parentheses removed.\<close>

definition cleanPhone :: "string \<Rightarrow> string" where
  "cleanPhone s =
     filter (\<lambda>c. \<not> (isWhiteSpace c \<or> c = CHR ''-'' \<or> c = CHR ''('' \<or> c = CHR '')'')) s"

text \<open>
  \<open>phoneRegex = /^[\+]?[1-9][\d]{0,15}$/\<close>, tested on a whole string: an optional
  \<open>+\<close>, a digit from 1 to 9, then at most fifteen digits and nothing else.
\<close>

definition phoneRegex_test :: "string \<Rightarrow> bool" where
  "phoneRegex_test s =
     (case (case s of [] \<Rightarrow> [] | c # t \<Rightarrow> if c = CHR ''+'' then t else s) of
        [] \<Rightarrow> False
      | d # ds \<Rightarrow> 49 \<le> charCode d \<and> charCode d \<le> 57 \<and> length ds \<le> 15 \<and> list_all isDigit ds)"

text \<open>\<open>isValidPhone\<close> of the backend's validation middleware.\<close>

definition isValidPhone :: "string \<Rightarrow> bool" where
  "isValidPhone s = phoneRegex_test (cleanPhone s)"

text \<open>\<open>EmployeeValidator.isValidPhone\<close> of the frontend.\<close>

definition EmployeeValidator_isValidPhone :: "string \<Rightarrow> bool" where
  "EmployeeValidator_isValidPhone s =
     (phoneRegex_test (cleanPhone s) \<and> length (cleanPhone s) \<ge> 10)"

definition isValidString :: "string \<Rightarrow> bool" where
  "isValidString v = (length (trim v) > 0)"

text \<open>
  The body of a create request: each field a string or \<open>undefined\<close>. The middleware either
  calls \<open>next\<close>, which hands the request to the controller, or answers 400 with an error.
\<close>

record CreateBody =
  body_name :: "string option"
  body_email :: "string option"
  body_position :: "string option"
  body_phone :: "string option"

datatype validation = Next | BadRequest string

definition validateCreateEmployee :: "CreateBody \<Rightarrow> validation" where
  "validateCreateEmployee body =
     (case (truthyString (body_name body), truthyString (body_email body),
            truthyString (body_position body), truthyString (body_phone body)) of
        (Some n, Some e, Some p, Some ph) \<Rightarrow>
          if \<not> isValidString n then BadRequest ''Invalid name''
          else if \<not> isValidString e then BadRequest ''Invalid email''
          else if \<not> isValidEmail e then BadRequest ''Invalid email format''
          else if \<not> isValidString p then BadRequest ''Invalid position''
          else if \<not> isValidString ph then BadRequest ''Invalid phone''
          else if \<not> isValidPhone ph then BadRequest ''Invalid phone number''
          else Next
      | _ \<Rightarrow> BadRequest ''Missing required fields'')"

section \<open>The controller: \<open>EmployeeController.getEmployees\<close>\<close>

text \<open>
  \<open>parseInt\<close> with no radix: leading white space is skipped, a sign is read, \<open>0x\<close> or
  \<open>0X\<close> selects radix 16, and the longest run of digits of the radix is the value; with no
  digit the result is \<open>NaN\<close>, here \<open>None\<close>. (\<open>NaN\<close> is falsy, and every use below tests
  truthiness first, so it behaves as \<open>undefined\<close> does.)
\<close>

definition digitValue :: "nat \<Rightarrow> char \<Rightarrow> nat option" where
  "digitValue radix c =
     (let n = charCode c;
          d = (if 48 \<le> n \<and> n \<le> 57 then n - 48
               else if 97 \<le> n \<and> n \<le> 122 then n - 87
               else if 65 \<le> n \<and> n \<le> 90 then n - 55
               else radix)
      in if d < radix then Some d else None)"

fun digitsValue :: "nat \<Rightarrow> int \<Rightarrow> string \<Rightarrow> int" where
  "digitsValue radix acc [] = acc"
| "digitsValue radix acc (c # cs) =
     (case digitValue radix c of
        None \<Rightarrow> acc
      | Some d \<Rightarrow> digitsValue radix (acc * int radix + int d) cs)"

text \<open>
  The result is a double: an integer of more than 53 bits is rounded to the nearest one
  with 53 significant bits, a tie to the even one. From \<open>2^1024 - 2^970\<close> on the result is
  \<open>Infinity\<close>, for which \<open>2^1024\<close> stands here: like it, it is truthy, and bound to a
  statement it is not a 64-bit integer.
\<close>

fun bitLength :: "int \<Rightarrow> nat" where
  "bitLength n = (if n \<le> 0 then 0 else Suc (bitLength (n div 2)))"

definition toDouble :: "int \<Rightarrow> int" where
  "toDouble n =
     (if n < 2 ^ 53 then n
      else
        let e = bitLength n - 53;
            q = n div 2 ^ e;
            r = n mod 2 ^ e;
            h = 2 ^ (e - 1);
            m = (if r > h \<or> (r = h \<and> odd q) then q + 1 else q)
        in if m * 2 ^ e \<ge> 2 ^ 1024 then 2 ^ 1024 else m * 2 ^ e)"

definition parseRadix :: "nat \<Rightarrow> string \<Rightarrow> int option" where
  "parseRadix radix s =
     (case s of
        [] \<Rightarrow> None
      | c # _ \<Rightarrow>
          (case digitValue radix c of
             None \<Rightarrow> None
           | Some _ \<Rightarrow> Some (toDouble (digitsValue radix 0 s))))"

definition parseUnsigned :: "string \<Rightarrow> int option" where
  "parseUnsigned s =
     (case s of
        a # b # t \<Rightarrow>
          if a = CHR ''0'' \<and> (b = CHR ''x'' \<or> b = CHR ''X'') then parseRadix 16 t
          else parseRadix 10 s
      | _ \<Rightarrow> parseRadix 10 s)"

definition parseInt :: "string \<Rightarrow> int option" where
  "parseInt string =
     (case dropWhile isWhiteSpace string of
        [] \<Rightarrow> None
      | c # t \<Rightarrow>
          if c = CHR ''-'' then map_option uminus (parseUnsigned t)
          else if c = CHR ''+'' then parseUnsigned t
          else parseUnsigned (c # t))"

text \<open>The query string of a list request: each parameter a string or absent.\<close>

record ListQuery =
  q_query :: "string option"
  q_position :: "string option"
  q_limit :: "string option"
  q_offset :: "string option"

text \<open>The \<open>data\<close> of a successful list response.\<close>

record ListResponse =
  employees :: "Employee list"
  pg_total :: int
  pg_limit :: int
  pg_offset :: int
  hasMore :: bool

definition searchParamsOf :: "ListQuery \<Rightarrow> SearchEmployeeRequest" where
  "searchParamsOf q =
     \<lparr>sp_query = q_query q,
      sp_position = q_position q,
      sp_limit = (case truthyString (q_limit q) of None \<Rightarrow> None | Some l \<Rightarrow> parseInt l),
      sp_offset = (case truthyString (q_offset q) of None \<Rightarrow> None | Some k \<Rightarrow> parseInt k)\<rparr>"

text \<open>\<open>x || d\<close> on numbers.\<close>

definition orElse :: "int option \<Rightarrow> int \<Rightarrow> int" where
  "orElse x d = (case truthyNumber x of None \<Rightarrow> d | Some n \<Rightarrow> n)"

text \<open>
  \<open>EmployeeController.getEmployees\<close>: status 500 when the service throws, otherwise the
  page and its pagination metadata.
\<close>

definition EmployeeController_getEmployees :: "Database \<Rightarrow> ListQuery \<Rightarrow> nat + ListResponse" where
  "EmployeeController_getEmployees db q =
     (let searchParams = searchParamsOf q in
      case EmployeeService_getEmployees db searchParams of
        Inl err \<Rightarrow> Inl 500
      | Inr (emps, n) \<Rightarrow>
          (let totalCount = int n in
           Inr \<lparr>employees = emps,
                pg_total = totalCount,
                pg_limit = orElse (sp_limit searchParams) totalCount,
                pg_offset = orElse (sp_offset searchParams) 0,
                hasMore =
                  (case truthyNumber (sp_offset searchParams) of
                     None \<Rightarrow> False
                   | Some k \<Rightarrow> k + orElse (sp_limit searchParams) totalCount < totalCount)\<rparr>))"

section \<open>A table to evaluate on\<close>

definition john :: Employee where
  "john = \<lparr>emp_id = 1, name = ''John Doe'', email = ''jd@example.com'',
            position = ''Developer'', phone = ''1234567890'', created_at = 100, updated_at = 100\<rparr>"

definition jane :: Employee where
  "jane = \<lparr>emp_id = 2, name = ''Jane Smith'', email = ''jane@example.com'',
            position = ''Designer'', phone = ''0987654321'', created_at = 100, updated_at = 100\<rparr>"

definition bob :: Employee where
  "bob = \<lparr>emp_id = 3, name = ''Bob'', email = ''bob@example.com'',
           position = ''Developer'', phone = ''5551234567'', created_at = 200, updated_at = 200\<rparr>"

definition exampleDb :: Database where
  "exampleDb = \<lparr>rows = [john, jane, bob], seq = 3\<rparr>"

definition createJohn :: CreateEmployeeRequest where
  "createJohn = \<lparr>new_name = ''John Doe'', new_email = ''JOHN@EXAMPLE.COM'',
                  new_position = ''Developer'', new_phone = ''1234567890''\<rparr>"

definition createJohnAgain :: CreateEmployeeRequest where
  "createJohnAgain = \<lparr>new_name = ''Jane Doe'', new_email = ''john@example.com'',
                       new_position = ''Developer'', new_phone = ''1234567890''\<rparr>"

definition createAnn :: CreateEmployeeRequest where
  "createAnn = \<lparr>new_name = ''Ann Lee'', new_email = ''ann@example.com'',
                 new_position = ''Designer'', new_phone = ''0987654321''\<rparr>"

definition renameJohn :: UpdateEmployeeRequest where
  "renameJohn = \<lparr>upd_name = Some ''John Updated'', upd_email = None,
                  upd_position = Some ''Senior Developer'', upd_phone = None\<rparr>"

section \<open>The search filter in the specification's words\<close>

text \<open>
  The filter as the specification words it, to compare with \<open>conditionsOf\<close>: the query
  occurs as a substring of name, email or phone, and the position is equal to the filter
  value; an absent filter imposes no condition. The specification leaves the handling of
  letter case to the engine: \<open>caseFold\<close> is the identity for the case-sensitive reading and
  \<open>likeFold\<close> for the one that ignores the case of ASCII letters.
\<close>

definition occursIn :: "(char \<Rightarrow> char) \<Rightarrow> string \<Rightarrow> string \<Rightarrow> bool" where
  "occursIn caseFold q s = sublist (map caseFold q) (map caseFold s)"

definition matchesAsStated ::
  "(char \<Rightarrow> char) \<Rightarrow> string option \<Rightarrow> string option \<Rightarrow> Employee \<Rightarrow> bool" where
  "matchesAsStated caseFold q p r =
     ((case q of
         None \<Rightarrow> True
       | Some s \<Rightarrow> occursIn caseFold s (name r) \<or> occursIn caseFold s (email r)
                    \<or> occursIn caseFold s (phone r))
      \<and> (case p of None \<Rightarrow> True | Some v \<Rightarrow> position r = v))"

text \<open>
  A plain query: one without the two wildcard characters of \<open>LIKE\<close> and without NUL.
\<close>

definition plainQuery :: "string option \<Rightarrow> bool" where
  "plainQuery q =
     (case q of
        None \<Rightarrow> True
      | Some s \<Rightarrow> CHR ''%'' \<notin> set s \<and> CHR ''_'' \<notin> set s \<and> CHR 0x00 \<notin> set s)"

text \<open>
  What the code does with a plain query: the filter above, ignoring the case of ASCII
  letters, with an empty filter counted as absent, on the three text fields read as C
  strings.
\<close>

definition asCStrings :: "Employee \<Rightarrow> Employee" where
  "asCStrings r =
     r\<lparr>name := cString (name r), email := cString (email r), phone := cString (phone r)\<rparr>"

definition matchesPlain :: "string option \<Rightarrow> string option \<Rightarrow> Employee \<Rightarrow> bool" where
  "matchesPlain q p r =
     matchesAsStated likeFold (truthyString q) (truthyString p) (asCStrings r)"

section \<open>Count and page agree\<close>

lemma length_orderByCreatedAtDesc: "length (orderByCreatedAtDesc rs) = length rs"
  by (simp add: orderByCreatedAtDesc_def)

lemma conditionsOf_limit_offset:
  "conditionsOf (searchParams\<lparr>sp_limit := l, sp_offset := k\<rparr>) = conditionsOf searchParams"
  by (simp add: conditionsOf_def)

text \<open>
  C1. For every filter combination and every table, \<open>getEmployeeCount\<close> returns the number
  of rows \<open>getEmployees\<close> returns for the same filters with no limit and no offset.
\<close>

theorem count_eq_length_getEmployees:
  "\<exists>rs. getEmployees db (searchParams\<lparr>sp_limit := None, sp_offset := None\<rparr>) = Inr rs
        \<and> getEmployeeCount db searchParams = Inr (length rs)"
  by (simp add: getEmployees_def getEmployeeCount_def conditionsOf_limit_offset
      length_orderByCreatedAtDesc)

section \<open>Zero as offset and as limit\<close>

text \<open>
  C6. For every filter combination and table, \<open>getEmployees\<close> with offset 0 returns what it
  returns with the offset absent; and with a limit the engine accepts (or none) both calls
  succeed, with the same list.
\<close>

theorem offset_zero_is_no_offset:
  "getEmployees db (searchParams\<lparr>sp_offset := Some 0\<rparr>) =
     getEmployees db (searchParams\<lparr>sp_offset := None\<rparr>)
   \<and> ((case sp_limit searchParams of None \<Rightarrow> True | Some l \<Rightarrow> isInt64 l) \<longrightarrow>
        (\<exists>rs. getEmployees db (searchParams\<lparr>sp_offset := Some 0\<rparr>) = Inr rs
            \<and> getEmployees db (searchParams\<lparr>sp_offset := None\<rparr>) = Inr rs))"
proof (cases "sp_limit searchParams")
  case None
  then show ?thesis by (simp add: getEmployees_def conditionsOf_def)
next
  case (Some l)
  then show ?thesis by (simp add: getEmployees_def conditionsOf_def)
qed

lemma exampleDb_newest:
  "getEmployees exampleDb
     \<lparr>sp_query = None, sp_position = None, sp_limit = Some 1, sp_offset = None\<rparr>
   = Inr [bob]"
  by (simp add: getEmployees_def conditionsOf_def whereRows_def orderByCreatedAtDesc_def
      isInt64_def exampleDb_def john_def jane_def bob_def)

theorem offset_zero_is_no_offset_witness:
  "isInt64 1
   \<and> getEmployees exampleDb
        \<lparr>sp_query = None, sp_position = None, sp_limit = Some 1, sp_offset = Some 0\<rparr>
       = Inr [bob]"
proof -
  let ?sp = "\<lparr>sp_query = None, sp_position = None, sp_limit = Some 1, sp_offset = None\<rparr>"
  have h: "isInt64 1" by (simp add: isInt64_def)
  then have "case sp_limit ?sp of None \<Rightarrow> True | Some l \<Rightarrow> isInt64 l" by simp
  with offset_zero_is_no_offset [of exampleDb ?sp]
  obtain rs where a: "getEmployees exampleDb (?sp\<lparr>sp_offset := Some 0\<rparr>) = Inr rs"
    and b: "getEmployees exampleDb (?sp\<lparr>sp_offset := None\<rparr>) = Inr rs"
    by blast
  from b have "rs = [bob]" by (simp add: exampleDb_newest)
  with a h show ?thesis by simp
qed

lemma exampleDb_developers:
  "orderByCreatedAtDesc (whereRows [PositionEquals ''Developer''] (rows exampleDb)) = [bob, john]"
  by (simp add: exampleDb_def orderByCreatedAtDesc_def whereRows_def john_def jane_def bob_def)

text \<open>
  C10. For every filter combination and table, \<open>getEmployees\<close> with limit 0 does what it does
  with the limit absent; with no offset (or offset 0) that is every matching row, in order.
\<close>

theorem limit_zero_is_no_limit:
  "getEmployees db (searchParams\<lparr>sp_limit := Some 0\<rparr>) =
     getEmployees db (searchParams\<lparr>sp_limit := None\<rparr>)
   \<and> (sp_offset searchParams \<in> {None, Some 0} \<longrightarrow>
        getEmployees db (searchParams\<lparr>sp_limit := Some 0\<rparr>) =
          Inr (orderByCreatedAtDesc (whereRows (conditionsOf searchParams) (rows db))))"
  by (auto simp add: getEmployees_def conditionsOf_def)

theorem limit_zero_is_no_limit_witness:
  "getEmployees exampleDb
     \<lparr>sp_query = None, sp_position = Some ''Developer'', sp_limit = Some 0, sp_offset = None\<rparr>
   = Inr [bob, john]"
proof -
  let ?sp = "\<lparr>sp_query = None, sp_position = Some ''Developer'', sp_limit = Some 2,
              sp_offset = None\<rparr>"
  have "sp_offset ?sp \<in> {None, Some 0}" by simp
  with limit_zero_is_no_limit [of exampleDb ?sp]
  have "getEmployees exampleDb (?sp\<lparr>sp_limit := Some 0\<rparr>) =
          Inr (orderByCreatedAtDesc (whereRows (conditionsOf ?sp) (rows exampleDb)))"
    by blast
  moreover have "conditionsOf ?sp = [PositionEquals ''Developer'']"
    by (simp add: conditionsOf_def)
  ultimately show ?thesis
    by (simp add: exampleDb_developers)
qed

text \<open>
  With a positive limit, a positive offset skips rows before the limit caps them (both
  within the engine's integers); with no limit (or limit 0) every offset that is not 0 makes
  the statement one the engine rejects.
\<close>

lemma offset_with_limit:
  assumes "l > 0" and "k > 0" and "isInt64 l" and "isInt64 k"
  shows "getEmployees db (searchParams\<lparr>sp_limit := Some l, sp_offset := Some k\<rparr>) =
         Inr (take (nat l) (drop (nat k)
                (orderByCreatedAtDesc (whereRows (conditionsOf searchParams) (rows db)))))"
  using assms by (simp add: getEmployees_def conditionsOf_def)

lemma offset_without_limit:
  assumes "sp_limit searchParams \<in> {None, Some 0}" and "k \<noteq> 0"
  shows "getEmployees db (searchParams\<lparr>sp_offset := Some k\<rparr>) = Inl SyntaxError"
  using assms by (auto simp add: getEmployees_def)

text \<open>
  C7. The claim: with a positive offset \<open>getEmployees\<close> succeeds, also when no limit is
  given. The code appends \<open>OFFSET ?\<close> to a statement that has no \<open>LIMIT\<close>, which the
  engine rejects: the call fails on the example table with offset 1 and no limit.
\<close>

theorem offset_without_limit_fails:
  "getEmployees exampleDb
     \<lparr>sp_query = None, sp_position = None, sp_limit = None, sp_offset = Some 1\<rparr>
   = Inl SyntaxError"
  by (simp add: getEmployees_def)

section \<open>Updates that change nothing\<close>

text \<open>
  C5. \<open>updateEmployee\<close> with no field named resolves to \<open>false\<close> and leaves the database
  as it was, for every id; and so does an update of an id that no row has.
\<close>

theorem update_rejected:
  "(upd_name updates = None \<and> upd_email updates = None \<and> upd_position updates = None
      \<and> upd_phone updates = None
      \<longrightarrow> updateEmployee now db i updates = (Inr False, db))
   \<and> (i \<notin> set (map emp_id (rows db)) \<longrightarrow> updateEmployee now db i updates = (Inr False, db))"
  by (auto simp add: updateEmployee_def fieldsOf_def filter_empty_conv)

theorem update_rejected_witness:
  "updateEmployee 300 exampleDb 1
     \<lparr>upd_name = None, upd_email = None, upd_position = None, upd_phone = None\<rparr>
     = (Inr False, exampleDb)
   \<and> updateEmployee 300 exampleDb 999
     \<lparr>upd_name = Some ''Updated Name'', upd_email = None, upd_position = None, upd_phone = None\<rparr>
     = (Inr False, exampleDb)"
proof -
  let ?none = "\<lparr>upd_name = None, upd_email = None, upd_position = None, upd_phone = None\<rparr>"
  let ?some = "\<lparr>upd_name = Some ''Updated Name'', upd_email = None, upd_position = None,
                upd_phone = None\<rparr>"
  have "upd_name ?none = None \<and> upd_email ?none = None \<and> upd_position ?none = None
          \<and> upd_phone ?none = None"
    by simp
  with update_rejected [of ?none 300 exampleDb 1]
  have a: "updateEmployee 300 exampleDb 1 ?none = (Inr False, exampleDb)" by blast
  have "(999::int) \<notin> set (map emp_id (rows exampleDb))"
    by (simp add: exampleDb_def john_def jane_def bob_def)
  with update_rejected [of ?some 300 exampleDb 999]
  have b: "updateEmployee 300 exampleDb 999 ?some = (Inr False, exampleDb)" by blast
  from a b show ?thesis by simp
qed

section \<open>Phone validation\<close>

text \<open>
  C8. The claim: a phone is accepted only if, stripped, it matches the pattern and has at
  least 10 characters. The frontend's \<open>EmployeeValidator.isValidPhone\<close> checks the length;
  the backend's \<open>isValidPhone\<close> does not, and \<open>validateCreateEmployee\<close> passes a request
  whose phone is \<open>123\<close> on to the controller.
\<close>

theorem backend_accepts_short_phone:
  "isValidPhone ''123'' \<and> length (cleanPhone ''123'') < 10
   \<and> \<not> EmployeeValidator_isValidPhone ''123''
   \<and> validateCreateEmployee
        \<lparr>body_name = Some ''John Doe'', body_email = Some ''john@example.com'',
         body_position = Some ''Developer'', body_phone = Some ''123''\<rparr> = Next"
  by (simp add: isValidPhone_def cleanPhone_def phoneRegex_test_def
      EmployeeValidator_isValidPhone_def validateCreateEmployee_def isValidString_def trim_def
      isWhiteSpace_def charCode_def isDigit_def isValidEmail_def emailChar_def)

section \<open>Pagination metadata\<close>

text \<open>
  What the controller computes: \<open>hasMore\<close> is \<open>offset + limit < total\<close> when the parsed
  offset is a number other than 0, and \<open>false\<close> otherwise.
\<close>

lemma hasMore_computed:
  assumes "EmployeeController_getEmployees db q = Inr resp"
  shows "hasMore resp =
         (case sp_offset (searchParamsOf q) of
            None \<Rightarrow> False
          | Some k \<Rightarrow> k \<noteq> 0 \<and> k + pg_limit resp < pg_total resp)"
  using assms
  by (cases "sp_offset (searchParamsOf q)")
    (auto simp add: EmployeeController_getEmployees_def Let_def
      split: sum.splits prod.splits if_splits)

text \<open>
  C9. The claim: \<open>hasMore = (offset + limit < total)\<close> whenever an offset was supplied,
  offset 0 included. The controller tests the truthiness of the parsed offset: on the
  example table of three rows, \<open>limit=1&offset=0\<close> gives \<open>hasMore = false\<close> although
  \<open>0 + 1 < 3\<close>.
\<close>

theorem hasMore_false_at_offset_zero:
  "\<exists>resp. EmployeeController_getEmployees exampleDb
             \<lparr>q_query = None, q_position = None, q_limit = Some ''1'', q_offset = Some ''0''\<rparr>
             = Inr resp
          \<and> pg_offset resp = 0 \<and> pg_limit resp = 1 \<and> pg_total resp = 3 \<and> \<not> hasMore resp"
  by (simp add: EmployeeController_getEmployees_def searchParamsOf_def parseInt_def
      parseUnsigned_def parseRadix_def digitValue_def isWhiteSpace_def charCode_def
      toDouble_def isInt64_def EmployeeService_getEmployees_def getEmployees_def
      getEmployeeCount_def conditionsOf_def whereRows_def exampleDb_def orElse_def Let_def)

section \<open>What the search filter matches\<close>

lemma patternCompare_percent:
  "patternCompare (CHR ''%'' # ps) t \<longleftrightarrow> (\<exists>t1 t2. t = t1 @ t2 \<and> patternCompare ps t2)"
proof (induction t)
  case Nil
  then show ?case by simp
next
  case (Cons c cs)
  have "patternCompare (CHR ''%'' # ps) (c # cs) \<longleftrightarrow>
        patternCompare ps (c # cs) \<or> patternCompare (CHR ''%'' # ps) cs"
    by simp
  also have "\<dots> \<longleftrightarrow> patternCompare ps (c # cs) \<or> (\<exists>t1 t2. cs = t1 @ t2 \<and> patternCompare ps t2)"
    by (simp only: Cons.IH)
  also have "\<dots> \<longleftrightarrow> (\<exists>t1 t2. c # cs = t1 @ t2 \<and> patternCompare ps t2)"
    by (auto simp add: Cons_eq_append_conv)
  finally show ?case .
qed

lemma patternCompare_literal:
  assumes "CHR ''%'' \<notin> set q" and "CHR ''_'' \<notin> set q"
  shows "patternCompare (q @ ps) t \<longleftrightarrow>
         (\<exists>t1 t2. t = t1 @ t2 \<and> map likeFold t1 = map likeFold q \<and> patternCompare ps t2)"
  using assms
proof (induction q arbitrary: t)
  case Nil
  then show ?case by simp
next
  case (Cons p q)
  then have p: "p \<noteq> CHR ''%''" "p \<noteq> CHR ''_''"
    and q: "CHR ''%'' \<notin> set q" "CHR ''_'' \<notin> set q"
    by auto
  show ?case
  proof (cases t)
    case Nil
    with p show ?thesis by simp
  next
    case (Cons c cs)
    have "patternCompare ((p # q) @ ps) (c # cs) \<longleftrightarrow>
          likeFold p = likeFold c \<and> patternCompare (q @ ps) cs"
      using p by simp
    also have "\<dots> \<longleftrightarrow> likeFold p = likeFold c \<and>
        (\<exists>t1 t2. cs = t1 @ t2 \<and> map likeFold t1 = map likeFold q \<and> patternCompare ps t2)"
      using Cons.IH [OF q] by simp
    also have "\<dots> \<longleftrightarrow>
        (\<exists>t1 t2. c # cs = t1 @ t2 \<and> map likeFold t1 = map likeFold (p # q)
           \<and> patternCompare ps t2)"
      (is "?L \<longleftrightarrow> ?R")
    proof
      assume ?L
      then obtain t1 t2 where "likeFold p = likeFold c" "cs = t1 @ t2"
        "map likeFold t1 = map likeFold q" "patternCompare ps t2"
        by blast
      then have "c # cs = (c # t1) @ t2 \<and> map likeFold (c # t1) = map likeFold (p # q)
          \<and> patternCompare ps t2"
        by simp
      then show ?R by blast
    next
      assume ?R
      then obtain t1 t2 where s: "c # cs = t1 @ t2"
        and m: "map likeFold t1 = map likeFold (p # q)"
        and l: "patternCompare ps t2"
        by blast
      from m obtain c' t1' where t1: "t1 = c' # t1'" by (cases t1) auto
      with s m l have "likeFold p = likeFold c \<and> cs = t1' @ t2
          \<and> map likeFold t1' = map likeFold q \<and> patternCompare ps t2"
        by simp
      then show ?L by blast
    qed
    finally show ?thesis using Cons by simp
  qed
qed

lemma patternCompare_percent_only: "patternCompare [CHR ''%''] t"
  by (induction t) simp_all

lemma patternCompare_contains:
  assumes "CHR ''%'' \<notin> set q" and "CHR ''_'' \<notin> set q"
  shows "patternCompare (CHR ''%'' # q @ [CHR ''%'']) t \<longleftrightarrow> occursIn likeFold q t"
proof -
  have "patternCompare (CHR ''%'' # q @ [CHR ''%'']) t \<longleftrightarrow>
        (\<exists>t1 t2. t = t1 @ t2 \<and> patternCompare (q @ [CHR ''%'']) t2)"
    by (rule patternCompare_percent)
  also have "\<dots> \<longleftrightarrow> (\<exists>t1 m t3. t = t1 @ m @ t3 \<and> map likeFold m = map likeFold q)"
    by (auto simp add: patternCompare_literal [OF assms] patternCompare_percent_only)
  also have "\<dots> \<longleftrightarrow> (\<exists>ps ss. map likeFold t = ps @ map likeFold q @ ss)"
    (is "?L \<longleftrightarrow> ?R")
  proof
    assume ?L
    then obtain t1 m t3 where "t = t1 @ m @ t3" "map likeFold m = map likeFold q"
      by blast
    then have "map likeFold t = map likeFold t1 @ map likeFold q @ map likeFold t3"
      by simp
    then show ?R by blast
  next
    assume ?R
    then obtain ps ss where "map likeFold t = ps @ map likeFold q @ ss"
      by blast
    then obtain t1 v where t: "t = t1 @ v" and v: "map likeFold q @ ss = map likeFold v"
      by (auto simp add: map_eq_append_conv)
    from v obtain m t3 where "v = m @ t3" "map likeFold q = map likeFold m"
      by (auto simp add: append_eq_map_conv)
    with t have "t = t1 @ m @ t3 \<and> map likeFold m = map likeFold q"
      by simp
    then show ?L by blast
  qed
  finally show ?thesis by (simp add: occursIn_def sublist_def)
qed

lemma cString_plain: "CHR 0x00 \<notin> set s \<Longrightarrow> cString s = s"
  by (auto simp add: cString_def)

lemma like_contains:
  assumes "CHR ''%'' \<notin> set q" and "CHR ''_'' \<notin> set q" and "CHR 0x00 \<notin> set q"
  shows "like (CHR ''%'' # q @ [CHR ''%'']) t \<longleftrightarrow> occursIn likeFold q (cString t)"
proof -
  from assms(3) have "CHR 0x00 \<notin> set (CHR ''%'' # q @ [CHR ''%''])" by simp
  then have "cString (CHR ''%'' # q @ [CHR ''%'']) = CHR ''%'' # q @ [CHR ''%'']"
    by (rule cString_plain)
  then show ?thesis
    by (simp add: like_def patternCompare_contains [OF assms(1,2)])
qed

lemma holds_conditionsOf:
  assumes "plainQuery (sp_query sp)"
  shows "list_all (\<lambda>c. holds c r) (conditionsOf sp) \<longleftrightarrow>
         matchesPlain (sp_query sp) (sp_position sp) r"
proof (cases "truthyString (sp_query sp)")
  case None
  then show ?thesis
    by (simp add: conditionsOf_def matchesPlain_def matchesAsStated_def asCStrings_def
        split: option.splits)
next
  case (Some q)
  then have "sp_query sp = Some q"
    by (cases "sp_query sp") (auto split: if_splits)
  with assms have "CHR ''%'' \<notin> set q" "CHR ''_'' \<notin> set q" "CHR 0x00 \<notin> set q"
    by (simp_all add: plainQuery_def)
  with Some show ?thesis
    by (simp add: conditionsOf_def matchesPlain_def matchesAsStated_def asCStrings_def
        like_contains split: option.splits)
qed

text \<open>
  For a plain query the code filters as the specification says: the rows returned are those
  in which the query occurs in name, email or phone, the case of ASCII letters ignored, and
  which have the position of the filter.
\<close>

lemma getEmployees_plain_query:
  assumes "plainQuery (sp_query sp)"
  shows "getEmployees db sp =
         limitOffset (truthyNumber (sp_limit sp)) (truthyNumber (sp_offset sp))
           (orderByCreatedAtDesc
              (filter (matchesPlain (sp_query sp) (sp_position sp)) (rows db)))"
  by (simp add: getEmployees_def whereRows_def holds_conditionsOf [OF assms])

text \<open>
  C2. The claim: a query returns exactly the rows in which it occurs as a substring of name,
  email or phone. The code binds \<open>%query%\<close> with the query unescaped, so the engine reads
  a \<open>_\<close> or \<open>%\<close> of the query as a wildcard: on the example table the query \<open>Jo_n\<close>
  returns the row of John Doe, although \<open>Jo_n\<close> occurs in none of the fields of any row,
  whether letter case counts or not.
\<close>

theorem wildcard_query_returns_row_without_it:
  "getEmployees exampleDb
     \<lparr>sp_query = Some ''Jo_n'', sp_position = None, sp_limit = None, sp_offset = None\<rparr>
     = Inr [john]
   \<and> filter (matchesAsStated id (Some ''Jo_n'') None) (rows exampleDb) = []
   \<and> filter (matchesAsStated likeFold (Some ''Jo_n'') None) (rows exampleDb) = []"
  by code_simp

section \<open>Creating with an email that is taken\<close>

lemma charCode_char_of: "n < 256 \<Longrightarrow> charCode (char_of n) = n"
  by (simp add: charCode_def)

lemma isWhiteSpace_lowerChar: "isWhiteSpace (lowerChar c) = isWhiteSpace c"
  by (auto simp add: isWhiteSpace_def lowerChar_def Let_def charCode_char_of)

lemma toLowerCase_dropWhile:
  "toLowerCase (dropWhile isWhiteSpace s) = dropWhile isWhiteSpace (toLowerCase s)"
  by (simp add: toLowerCase_def dropWhile_map comp_def isWhiteSpace_lowerChar)

lemma toLowerCase_rev: "toLowerCase (rev s) = rev (toLowerCase s)"
  by (simp add: toLowerCase_def rev_map)

lemma toLowerCase_trim: "toLowerCase (trim s) = trim (toLowerCase s)"
  by (simp add: trim_def toLowerCase_rev toLowerCase_dropWhile)

lemma maxRowid_ge_seq: "s \<le> maxRowid rs s"
  by (induction rs) (auto simp add: maxRowid_def)

lemma maxRowid_ge: "r \<in> set rs \<Longrightarrow> emp_id r \<le> maxRowid rs s"
  by (induction rs) (auto simp add: maxRowid_def)

lemma find_new_row:
  assumes "\<forall>r \<in> set rs. emp_id r \<noteq> emp_id row"
  shows "find (\<lambda>r. emp_id r = emp_id row) (rs @ [row]) = Some row"
  using assms by (induction rs) auto

lemma createEmployee_fresh:
  assumes "new_email e \<notin> set (map email (rows db))"
  shows "\<exists>row. createEmployee now db e = (Inr (emp_id row), db\<lparr>rows := rows db @ [row], seq := emp_id row\<rparr>)
        \<and> email row = new_email e \<and> emp_id row = maxRowid (rows db) (seq db) + 1
        \<and> getEmployeeById (db\<lparr>rows := rows db @ [row], seq := emp_id row\<rparr>) (emp_id row) = Some row"
proof -
  let ?id = "maxRowid (rows db) (seq db) + 1"
  let ?row = "\<lparr>emp_id = ?id, name = new_name e, email = new_email e,
                   position = new_position e, phone = new_phone e,
                   created_at = now, updated_at = now\<rparr>"
  have "\<forall>r \<in> set (rows db). emp_id r \<noteq> emp_id ?row"
    using maxRowid_ge [of _ "rows db" "seq db"] by fastforce
  then have "find (\<lambda>r. emp_id r = emp_id ?row) (rows db @ [?row]) = Some ?row"
    by (rule find_new_row)
  then have "getEmployeeById (db\<lparr>rows := rows db @ [?row], seq := emp_id ?row\<rparr>) (emp_id ?row) = Some ?row"
    by (simp add: getEmployeeById_def)
  moreover have "createEmployee now db e = (Inr (emp_id ?row), db\<lparr>rows := rows db @ [?row], seq := emp_id ?row\<rparr>)"
    using assms by (simp add: createEmployee_def Let_def)
  ultimately show ?thesis by (intro exI [of _ ?row]) simp
qed

lemma service_create_fresh:
  assumes "toLowerCase (trim (new_email a)) \<notin> set (map email (rows db))"
  shows "\<exists>emp. EmployeeService_createEmployee now db a =
                 (Inr emp, db\<lparr>rows := rows db @ [emp], seq := emp_id emp\<rparr>)
             \<and> email emp = toLowerCase (trim (new_email a))"
proof -
  let ?e = "\<lparr>new_name = trim (new_name a), new_email = toLowerCase (trim (new_email a)),
              new_position = trim (new_position a), new_phone = trim (new_phone a)\<rparr>"
  from assms have "new_email ?e \<notin> set (map email (rows db))" by simp
  from createEmployee_fresh [OF this, of now] obtain row where
    c: "createEmployee now db ?e = (Inr (emp_id row), db\<lparr>rows := rows db @ [row], seq := emp_id row\<rparr>)"
    and e: "email row = new_email ?e"
    and g: "getEmployeeById (db\<lparr>rows := rows db @ [row], seq := emp_id row\<rparr>) (emp_id row) = Some row"
    by blast
  have "EmployeeService_createEmployee now db a = (Inr row, db\<lparr>rows := rows db @ [row], seq := emp_id row\<rparr>)"
    by (simp add: EmployeeService_createEmployee_def c g)
  with e show ?thesis by auto
qed

lemma service_create_duplicate:
  assumes "toLowerCase (trim (new_email b)) \<in> set (map email (rows db))"
  shows "EmployeeService_createEmployee now db b = (Inl (DbError UniqueConstraintFailed), db)"
  using assms by (simp add: EmployeeService_createEmployee_def createEmployee_def)

text \<open>
  C3. When no row holds the (trimmed, lower-cased) email of the first request, the first
  create succeeds and appends its row. A second create whose email is equal to the first up
  to letter case then fails with the engine's unique-constraint error and leaves the database
  as the first create left it; a second create with a different email that no row holds
  succeeds too.
\<close>

theorem create_same_email_twice:
  assumes fresh: "toLowerCase (trim (new_email a)) \<notin> set (map email (rows db))"
  shows "\<exists>emp db1. EmployeeService_createEmployee t1 db a = (Inr emp, db1)
           \<and> rows db1 = rows db @ [emp]
           \<and> (toLowerCase (new_email a) = toLowerCase (new_email b) \<longrightarrow>
                EmployeeService_createEmployee t2 db1 b = (Inl (DbError UniqueConstraintFailed), db1))
           \<and> (toLowerCase (trim (new_email a)) \<noteq> toLowerCase (trim (new_email b))
                \<and> toLowerCase (trim (new_email b)) \<notin> set (map email (rows db)) \<longrightarrow>
                (\<exists>emp2 db2. EmployeeService_createEmployee t2 db1 b = (Inr emp2, db2)
                    \<and> rows db2 = rows db @ [emp, emp2]))"
proof -
  from service_create_fresh [OF fresh, of t1] obtain emp where
    c: "EmployeeService_createEmployee t1 db a = (Inr emp, db\<lparr>rows := rows db @ [emp], seq := emp_id emp\<rparr>)"
    and e: "email emp = toLowerCase (trim (new_email a))"
    by blast
  let ?db1 = "db\<lparr>rows := rows db @ [emp], seq := emp_id emp\<rparr>"
  have same: "EmployeeService_createEmployee t2 ?db1 b = (Inl (DbError UniqueConstraintFailed), ?db1)"
    if "toLowerCase (new_email a) = toLowerCase (new_email b)"
  proof -
    from that have "toLowerCase (trim (new_email a)) = toLowerCase (trim (new_email b))"
      by (simp add: toLowerCase_trim)
    with e have "toLowerCase (trim (new_email b)) \<in> set (map email (rows ?db1))" by simp
    then show ?thesis by (rule service_create_duplicate)
  qed
  have diff: "\<exists>emp2 db2. EmployeeService_createEmployee t2 ?db1 b = (Inr emp2, db2) \<and> rows db2 = rows db @ [emp, emp2]"
    if "toLowerCase (trim (new_email a)) \<noteq> toLowerCase (trim (new_email b))"
      and "toLowerCase (trim (new_email b)) \<notin> set (map email (rows db))"
  proof -
    from that e have "toLowerCase (trim (new_email b)) \<notin> set (map email (rows ?db1))" by auto
    from service_create_fresh [OF this, of t2] show ?thesis by auto
  qed
  from c same diff show ?thesis by (intro exI [of _ emp] exI [of _ ?db1]) simp
qed

theorem create_same_email_twice_witness:
  "(\<exists>emp db1. EmployeeService_createEmployee 300 exampleDb createJohn = (Inr emp, db1)
       \<and> EmployeeService_createEmployee 301 db1 createJohnAgain
           = (Inl (DbError UniqueConstraintFailed), db1))
   \<and> (\<exists>emp db1 emp2 db2. EmployeeService_createEmployee 300 exampleDb createJohn = (Inr emp, db1)
       \<and> EmployeeService_createEmployee 301 db1 createAnn = (Inr emp2, db2))"
proof -
  have fresh: "toLowerCase (trim (new_email createJohn)) \<notin> set (map email (rows exampleDb))"
    by code_simp
  have same: "toLowerCase (new_email createJohn) = toLowerCase (new_email createJohnAgain)"
    by code_simp
  have other: "toLowerCase (trim (new_email createJohn)) \<noteq> toLowerCase (trim (new_email createAnn))
      \<and> toLowerCase (trim (new_email createAnn)) \<notin> set (map email (rows exampleDb))"
    by code_simp
  from create_same_email_twice [OF fresh, of 300 createJohnAgain 301] same
  have 1: "\<exists>emp db1. EmployeeService_createEmployee 300 exampleDb createJohn = (Inr emp, db1)
       \<and> EmployeeService_createEmployee 301 db1 createJohnAgain
           = (Inl (DbError UniqueConstraintFailed), db1)"
    by blast
  from create_same_email_twice [OF fresh, of 300 createAnn 301] other
  have 2: "\<exists>emp db1 emp2 db2. EmployeeService_createEmployee 300 exampleDb createJohn = (Inr emp, db1)
       \<and> EmployeeService_createEmployee 301 db1 createAnn = (Inr emp2, db2)"
    by blast
  from 1 2 show ?thesis by blast
qed

section \<open>What an update changes\<close>

lemma update_succeeds:
  assumes "i \<in> set (map emp_id (rows db))" and "fieldsOf updates \<noteq> []" and "\<not> emailCollides db i updates"
  shows "\<exists>db'. updateEmployee now db i updates = (Inr True, db')"
  using assms by (auto simp add: updateEmployee_def filter_empty_conv)

text \<open>
  C4. A successful update is an update of an existing id that names at least one field. It
  keeps the number of rows and the sequence; every row keeps its id and \<open>created_at\<close>;
  a row with another id is unchanged; a row with the id gets the named fields, keeps the
  others, and has its \<open>updated_at\<close> set to the time of the update.
\<close>

theorem update_frame:
  assumes "updateEmployee now db i updates = (Inr True, db')"
  shows "i \<in> set (map emp_id (rows db)) \<and> fieldsOf updates \<noteq> []
     \<and> seq db' = seq db \<and> length (rows db') = length (rows db)
     \<and> (\<forall>k < length (rows db).
          emp_id (rows db' ! k) = emp_id (rows db ! k)
        \<and> created_at (rows db' ! k) = created_at (rows db ! k)
        \<and> (emp_id (rows db ! k) \<noteq> i \<longrightarrow> rows db' ! k = rows db ! k)
        \<and> (emp_id (rows db ! k) = i \<longrightarrow>
             name (rows db' ! k) = (case upd_name updates of None \<Rightarrow> name (rows db ! k) | Some v \<Rightarrow> v)
           \<and> email (rows db' ! k) = (case upd_email updates of None \<Rightarrow> email (rows db ! k) | Some v \<Rightarrow> v)
           \<and> position (rows db' ! k) = (case upd_position updates of None \<Rightarrow> position (rows db ! k) | Some v \<Rightarrow> v)
           \<and> phone (rows db' ! k) = (case upd_phone updates of None \<Rightarrow> phone (rows db ! k) | Some v \<Rightarrow> v)
           \<and> updated_at (rows db' ! k) = now))"
proof -
  from assms have nonempty: "fieldsOf updates \<noteq> []"
    and hit: "filter (\<lambda>r. emp_id r = i) (rows db) \<noteq> []"
    and db': "db' = db\<lparr>rows := map (\<lambda>r. if emp_id r = i then setClause now updates r else r) (rows db)\<rparr>"
    by (auto simp add: updateEmployee_def split: if_splits)
  from hit have "i \<in> set (map emp_id (rows db))"
    by (auto simp add: filter_empty_conv)
  with nonempty db' show ?thesis
    by (simp add: setClause_def)
qed

lemma renameJohn_succeeds:
  "\<exists>db'. updateEmployee 300 exampleDb 1 renameJohn = (Inr True, db')"
  by (rule update_succeeds) code_simp+

theorem update_frame_witness:
  "\<exists>db'. updateEmployee 300 exampleDb 1 renameJohn = (Inr True, db')
     \<and> name (rows db' ! 0) = ''John Updated'' \<and> position (rows db' ! 0) = ''Senior Developer''
     \<and> email (rows db' ! 0) = email john \<and> phone (rows db' ! 0) = phone john
     \<and> emp_id (rows db' ! 0) = 1 \<and> created_at (rows db' ! 0) = created_at john
     \<and> updated_at (rows db' ! 0) = 300
     \<and> rows db' ! 1 = jane \<and> rows db' ! 2 = bob"
proof -
  from renameJohn_succeeds obtain db' where
    u: "updateEmployee 300 exampleDb 1 renameJohn = (Inr True, db')"
    by blast
  have rows: "rows exampleDb ! 0 = john" "rows exampleDb ! 1 = jane" "rows exampleDb ! 2 = bob"
    "length (rows exampleDb) = 3"
    by (simp_all add: exampleDb_def)
  have ids: "emp_id john = 1" "emp_id jane \<noteq> 1" "emp_id bob \<noteq> 1"
    by (simp_all add: john_def jane_def bob_def)
  note f = update_frame [OF u]
  from f rows ids have "name (rows db' ! 0) = ''John Updated''
     \<and> position (rows db' ! 0) = ''Senior Developer''
     \<and> email (rows db' ! 0) = email john \<and> phone (rows db' ! 0) = phone john
     \<and> emp_id (rows db' ! 0) = 1 \<and> created_at (rows db' ! 0) = created_at john
     \<and> updated_at (rows db' ! 0) = 300"
    by (simp add: renameJohn_def)
  moreover from f rows ids have "rows db' ! 1 = jane" by simp
  moreover from f rows ids have "rows db' ! 2 = bob" by simp
  ultimately show ?thesis using u by blast
qed

end
